theory Spec2Isabelle
  imports Main
begin

section \<open>Data model\<close>

text \<open>
  The documents of the Mongoose models (\<^verbatim>\<open>models/Guild.js\<close>, \<^verbatim>\<open>models/Message.js\<close>,
  \<^verbatim>\<open>models/Invite.js\<close>, \<^verbatim>\<open>models/Channel.js\<close>, \<^verbatim>\<open>models/Conversation.js\<close>) as records.
  An ObjectId is a natural number; the field \<^verbatim>\<open>_id\<close> is called \<open>oid\<close>. A date is the
  number of milliseconds since the epoch. Fields that no handler below reads
  (icons, attachments, mentions, the timestamps of creation and update) are left out.
  Several models share field names (\<^verbatim>\<open>name\<close>, \<^verbatim>\<open>members\<close>, \<^verbatim>\<open>guild\<close>), so fields are
  written qualified, as the source writes \<^verbatim>\<open>role.members\<close> and \<^verbatim>\<open>guild.members\<close>.
\<close>

type_synonym objectId = nat

type_synonym date = int

record role =
  name :: string
  color :: string
  permissions :: "string list"
  position :: nat
  members :: "objectId list"

record guild =
  oid :: objectId
  name :: string
  owner :: objectId
  members :: "objectId list"
  roles :: "role list"

record channel =
  oid :: objectId
  name :: string
  topic :: string
  guild :: objectId
  category :: string
  type :: string

record message =
  oid :: objectId
  content :: string
  author :: objectId
  channel :: "objectId option"
  conversationId :: "objectId option"

record conversation =
  oid :: objectId
  participants :: "objectId list"
  creator :: objectId
  lastMessage :: "objectId option"

record invite =
  oid :: objectId
  code :: string
  guild :: objectId
  creator :: objectId
  uses :: int
  maxUses :: int
  expiresAt :: "date option"

text \<open>
  The store is the database: one collection per model, each a list of documents in
  insertion order, and the source of fresh ObjectIds. Only the ids of the users matter
  to the handlers modelled here.
\<close>

record store =
  users :: "objectId list"
  guilds :: "guild list"
  channels :: "channel list"
  messages :: "message list"
  conversations :: "conversation list"
  invites :: "invite list"
  nextId :: objectId

text \<open>
  A handler answers with a status and a JSON body and hands events to socket.io:
  \<^verbatim>\<open>io.to(room).emit(event, payload)\<close>. The room keys \<^verbatim>\<open>user:<id>\<close>, \<^verbatim>\<open>guild:<id>\<close>,
  \<^verbatim>\<open>channel:<id>\<close> and \<^verbatim>\<open>conversation:<id>\<close> are the constructors of \<open>room\<close>, keyed
  by the id. \<open>UserRoomSpelled\<close> is a key \<^verbatim>\<open>user:<s>\<close> in which \<^verbatim>\<open>s\<close> spells the id
  otherwise than \<^verbatim>\<open>toString\<close> does: not the room a socket joins when it connects.
\<close>

datatype room =
  UserRoom objectId
  | GuildRoom objectId
  | ChannelRoom objectId
  | ConversationRoom objectId
  | UserRoomSpelled objectId

datatype body =
  Text string
  | ValidationErrors
  | MessageDoc message
  | ChannelDoc channel
  | GuildDoc guild
  | RoleDoc role
  | ConversationDoc conversation
  | InviteDoc invite
  | Ids "(string \<times> objectId) list"
  | GuildRole objectId role
  | GuildName objectId string

type_synonym emit = "room \<times> string \<times> body"

record outcome =
  status :: nat
  body :: body
  db :: store
  emits :: "emit list"

definition reply :: "nat \<Rightarrow> body \<Rightarrow> store \<Rightarrow> outcome" where
  "reply c b s = \<lparr>status = c, body = b, db = s, emits = []\<rparr>"

text \<open>
  The \<^verbatim>\<open>catch\<close> block of every handler: an exception (here: reading a field of a
  document that \<^verbatim>\<open>findById\<close> did not find) answers 500.
\<close>

definition serverError :: "store \<Rightarrow> outcome" where
  "serverError s = reply 500 (Text ''Server error'') s"

section \<open>Queries\<close>

definition findGuild :: "store \<Rightarrow> objectId \<Rightarrow> guild option" where
  "findGuild s i = find (\<lambda>g. guild.oid g = i) (guilds s)"

definition findChannel :: "store \<Rightarrow> objectId \<Rightarrow> channel option" where
  "findChannel s i = find (\<lambda>c. channel.oid c = i) (channels s)"

definition findMessage :: "store \<Rightarrow> objectId \<Rightarrow> message option" where
  "findMessage s i = find (\<lambda>m. message.oid m = i) (messages s)"

definition findConversation :: "store \<Rightarrow> objectId \<Rightarrow> conversation option" where
  "findConversation s i = find (\<lambda>c. conversation.oid c = i) (conversations s)"

definition findInviteByCode :: "store \<Rightarrow> string \<Rightarrow> invite option" where
  "findInviteByCode s c = find (\<lambda>i. invite.code i = c) (invites s)"

text \<open>
  \<^verbatim>\<open>doc.save()\<close> of a document that was read from the store writes the document
  with that \<^verbatim>\<open>_id\<close> back: the first one in the list, the one \<^verbatim>\<open>findById\<close> returns.
\<close>

fun replaceFirst :: "('a \<Rightarrow> bool) \<Rightarrow> 'a \<Rightarrow> 'a list \<Rightarrow> 'a list" where
  "replaceFirst P y [] = []"
| "replaceFirst P y (x # xs) = (if P x then y # xs else x # replaceFirst P y xs)"

definition saveGuild :: "guild \<Rightarrow> store \<Rightarrow> store" where
  "saveGuild g s = s\<lparr>guilds := replaceFirst (\<lambda>x. guild.oid x = guild.oid g) g (guilds s)\<rparr>"

definition saveInvite :: "invite \<Rightarrow> store \<Rightarrow> store" where
  "saveInvite i s =
     s\<lparr>invites := replaceFirst (\<lambda>x. invite.oid x = invite.oid i) i (invites s)\<rparr>"

definition saveConversation :: "conversation \<Rightarrow> store \<Rightarrow> store" where
  "saveConversation c s =
     s\<lparr>conversations :=
         replaceFirst (\<lambda>x. conversation.oid x = conversation.oid c) c (conversations s)\<rparr>"

section \<open>Request validation\<close>

text \<open>
  The express-validator chains \<^verbatim>\<open>isString().trim().isLength({min, max})\<close>: the body
  field is a string, \<^verbatim>\<open>trim\<close> replaces it by itself without the white space at both
  ends, and the length of the result is checked. A character is white space when
  \<^verbatim>\<open>\s\<close> matches it; among the characters of \<open>char\<close>, whose codes are below 256,
  these are the six of ASCII and the no-break space.
\<close>

definition isSpace :: "char \<Rightarrow> bool" where
  "isSpace c =
     (c \<in> set [CHR '' '', CHR 0x09, CHR 0x0A, CHR 0x0B, CHR 0x0C, CHR 0x0D, CHR 0xA0])"

definition trim :: "string \<Rightarrow> string" where
  "trim str = rev (dropWhile isSpace (rev (dropWhile isSpace str)))"

definition isLength :: "nat \<Rightarrow> nat \<Rightarrow> string \<Rightarrow> bool" where
  "isLength lo hi str = (lo \<le> length str \<and> length str \<le> hi)"

definition isHexColor :: "string \<Rightarrow> bool" where
  "isHexColor str =
     (case str of
        [] \<Rightarrow> False
      | h # t \<Rightarrow> h = CHR ''#'' \<and> length t = 6 \<and> list_all (\<lambda>c. c \<in> set ''0123456789abcdefABCDEF'') t)"

section \<open>Permission checks\<close>

text \<open>
  The handlers repeat two expressions. \<^verbatim>\<open>isAdmin\<close> is
  \<^verbatim>\<open>guild.owner.toString() === userId.toString() || guild.roles.some(role =>
  role.permissions.includes('ADMINISTRATOR') && role.members.includes(userId))\<close>, and
  the second disjunct of every \<^verbatim>\<open>canX\<close> is the same \<^verbatim>\<open>some\<close> for another permission.
  \<^verbatim>\<open>includes\<close> on an array of ObjectIds compares by value. The check of
  \<^verbatim>\<open>POST /channels/:id/messages\<close> is written differently: it has no \<^verbatim>\<open>isAdmin\<close>.
\<close>

definition roleGrants :: "guild \<Rightarrow> objectId \<Rightarrow> string \<Rightarrow> bool" where
  "roleGrants g userId perm =
     list_ex (\<lambda>r. perm \<in> set (role.permissions r) \<and> userId \<in> set (role.members r))
       (guild.roles g)"

definition isAdmin :: "guild \<Rightarrow> objectId \<Rightarrow> bool" where
  "isAdmin g userId = (guild.owner g = userId \<or> roleGrants g userId ''ADMINISTRATOR'')"

definition canManageMessages :: "guild \<Rightarrow> objectId \<Rightarrow> bool" where
  "canManageMessages g userId = (isAdmin g userId \<or> roleGrants g userId ''MANAGE_MESSAGES'')"

definition canManageChannels :: "guild \<Rightarrow> objectId \<Rightarrow> bool" where
  "canManageChannels g userId = (isAdmin g userId \<or> roleGrants g userId ''MANAGE_CHANNELS'')"

definition canKickMembers :: "guild \<Rightarrow> objectId \<Rightarrow> bool" where
  "canKickMembers g userId = (isAdmin g userId \<or> roleGrants g userId ''KICK_MEMBERS'')"

definition canManageRoles :: "guild \<Rightarrow> objectId \<Rightarrow> bool" where
  "canManageRoles g userId = (isAdmin g userId \<or> roleGrants g userId ''MANAGE_ROLES'')"

definition canCreateInvites :: "guild \<Rightarrow> objectId \<Rightarrow> bool" where
  "canCreateInvites g userId = (isAdmin g userId \<or> roleGrants g userId ''CREATE_INVITE'')"


definition canSendMessages :: "guild \<Rightarrow> objectId \<Rightarrow> bool" where
  "canSendMessages g userId =
     list_ex (\<lambda>r. userId \<in> set (role.members r) \<and> ''SEND_MESSAGES'' \<in> set (role.permissions r))
       (guild.roles g)"

section \<open>Guilds\<close>

text \<open>
  \<^verbatim>\<open>guildSchema.pre('save')\<close> for a new document: the role \<^verbatim>\<open>@everyone\<close> with a copy
  of the member list, then the role \<^verbatim>\<open>Admin\<close> with the owner.
\<close>

definition preSave :: "guild \<Rightarrow> guild" where
  "preSave g =
     g\<lparr>guild.roles := guild.roles g @
        [\<lparr>role.name = ''@everyone'', role.color = ''#99AAB5'',
          role.permissions = [''VIEW_CHANNELS'', ''SEND_MESSAGES'', ''READ_MESSAGE_HISTORY''],
          role.position = 0, role.members = guild.members g\<rparr>,
         \<lparr>role.name = ''Admin'', role.color = ''#F04747'',
          role.permissions = [''ADMINISTRATOR''],
          role.position = 1, role.members = [guild.owner g]\<rparr>]\<rparr>"

text \<open>
  \<^verbatim>\<open>POST /guilds\<close>. The new guild takes the next ObjectId, its channel \<^verbatim>\<open>general\<close> the
  one after; \<^verbatim>\<open>topic\<close> and \<^verbatim>\<open>type\<close> of the channel are the defaults of the schema. The
  body is what \<^verbatim>\<open>Guild.findById(guild._id)\<close> finds afterwards.
\<close>

definition createGuild :: "objectId \<Rightarrow> string \<Rightarrow> store \<Rightarrow> outcome" where
  "createGuild userId rawName s =
     (let trimmed = trim rawName in
      if \<not> isLength 2 100 trimmed then reply 400 ValidationErrors s
      else
        let g = preSave \<lparr>guild.oid = nextId s, guild.name = trimmed, guild.owner = userId,
                         guild.members = [userId], guild.roles = []\<rparr>;
            generalChannel = \<lparr>channel.oid = Suc (nextId s), channel.name = ''general'',
                              channel.topic = '''', channel.guild = guild.oid g,
                              channel.category = ''Text Channels'', channel.type = ''text''\<rparr>;
            s' = s\<lparr>guilds := guilds s @ [g], channels := channels s @ [generalChannel],
                   nextId := Suc (Suc (nextId s))\<rparr>
        in \<lparr>status = 201,
            body = (case findGuild s' (guild.oid g) of Some p \<Rightarrow> GuildDoc p | None \<Rightarrow> Text ''null''),
            db = s', emits = []\<rparr>)"

text \<open>
  \<^verbatim>\<open>DELETE /guilds/:id\<close>: the owner deletes the guild and its channels. The invites of
  the guild stay in the store.
\<close>

definition deleteGuild :: "objectId \<Rightarrow> objectId \<Rightarrow> store \<Rightarrow> outcome" where
  "deleteGuild userId guildId s =
     (case findGuild s guildId of
        None \<Rightarrow> reply 404 (Text ''Guild not found'') s
      | Some g \<Rightarrow>
          if guild.owner g \<noteq> userId then
            reply 403 (Text ''Only the guild owner can delete the guild'') s
          else
            \<lparr>status = 200, body = Text ''Guild deleted successfully'',
             db = s\<lparr>channels := filter (\<lambda>c. channel.guild c \<noteq> guildId) (channels s),
                    guilds := filter (\<lambda>x. guild.oid x \<noteq> guildId) (guilds s)\<rparr>,
             emits = [(GuildRoom guildId, ''guildDelete'', Ids [(''_id'', guildId)])]\<rparr>)"

text \<open>
  \<^verbatim>\<open>DELETE /guilds/:id/members/:userId\<close>. The path segment \<^verbatim>\<open>:userId\<close> is a string.
  The two updates cast it to an ObjectId, and a string of 24 hexadecimal digits casts
  to the same ObjectId whatever the case of its letters; the owner guard compares the
  string itself with \<^verbatim>\<open>guild.owner.toString()\<close>, which is in lower case, and the
  notice to the kicked user goes to the room \<^verbatim>\<open>user:\<close> followed by the string. So the
  segment is an id \<open>userId\<close> together with \<open>canonical\<close>: whether it is spelled as
  \<^verbatim>\<open>toString\<close> spells the id. (In the other routes the segments of the path are only
  cast, so they are ids.)

  \<^verbatim>\<open>$pull\<close> takes every occurrence of the user out of the member list; the second
  update, which applies when some role lists the user, takes the user out of the
  member list of every role.
\<close>

definition pullMember :: "objectId \<Rightarrow> guild \<Rightarrow> guild" where
  "pullMember userId g = g\<lparr>guild.members := removeAll userId (guild.members g)\<rparr>"

definition pullFromRoles :: "objectId \<Rightarrow> guild \<Rightarrow> guild" where
  "pullFromRoles userId g =
     (if list_ex (\<lambda>r. userId \<in> set (role.members r)) (guild.roles g) then
        g\<lparr>guild.roles :=
            map (\<lambda>r. r\<lparr>role.members := removeAll userId (role.members r)\<rparr>) (guild.roles g)\<rparr>
      else g)"

definition removeMember ::
  "objectId \<Rightarrow> objectId \<Rightarrow> bool \<Rightarrow> objectId \<Rightarrow> store \<Rightarrow> outcome" where
  "removeMember reqUser guildId canonical userId s =
     (case findGuild s guildId of
        None \<Rightarrow> reply 404 (Text ''Guild not found'') s
      | Some g \<Rightarrow>
          if \<not> canKickMembers g reqUser then
            reply 403 (Text ''You do not have permission to kick members'') s
          else if canonical \<and> guild.owner g = userId then
            reply 403 (Text ''Cannot remove the guild owner'') s
          else
            \<lparr>status = 200, body = Text ''Member removed successfully'',
             db = s\<lparr>guilds :=
                    map (\<lambda>x. if guild.oid x = guildId
                              then pullFromRoles userId (pullMember userId x) else x)
                      (guilds s)\<rparr>,
             emits = [(GuildRoom guildId, ''memberRemove'',
                         Ids [(''guildId'', guildId), (''userId'', userId)]),
                      (if canonical then UserRoom userId else UserRoomSpelled userId,
                       ''kickedFromGuild'', GuildName guildId (guild.name g))]\<rparr>)"

text \<open>
  \<^verbatim>\<open>POST /guilds/:id/roles\<close>. \<^verbatim>\<open>color\<close> and \<^verbatim>\<open>permissions\<close> are optional in the body.
\<close>

definition createRole ::
  "objectId \<Rightarrow> objectId \<Rightarrow> string \<Rightarrow> string option \<Rightarrow> string list option \<Rightarrow> store \<Rightarrow> outcome" where
  "createRole reqUser guildId rawName colorOpt permsOpt s =
     (let trimmed = trim rawName in
      if \<not> isLength 1 100 trimmed \<or> (case colorOpt of None \<Rightarrow> False | Some c \<Rightarrow> \<not> isHexColor c) then
        reply 400 ValidationErrors s
      else
        (case findGuild s guildId of
           None \<Rightarrow> reply 404 (Text ''Guild not found'') s
         | Some g \<Rightarrow>
             if \<not> canManageRoles g reqUser then
               reply 403 (Text ''You do not have permission to manage roles'') s
             else
               let newRole = \<lparr>role.name = trimmed,
                              role.color = (case colorOpt of None \<Rightarrow> ''#99AAB5'' | Some c \<Rightarrow> c),
                              role.permissions = (case permsOpt of None \<Rightarrow> [] | Some ps \<Rightarrow> ps),
                              role.position = length (guild.roles g), role.members = []\<rparr>
               in \<lparr>status = 201, body = RoleDoc newRole,
                   db = saveGuild (g\<lparr>guild.roles := guild.roles g @ [newRole]\<rparr>) s,
                   emits = [(GuildRoom guildId, ''newRole'', GuildRole guildId newRole)]\<rparr>))"

section \<open>Invites\<close>

text \<open>
  The methods of \<^verbatim>\<open>inviteSchema\<close>. \<open>now\<close> is the clock, \<^verbatim>\<open>new Date()\<close>.
\<close>

definition isExpired :: "date \<Rightarrow> invite \<Rightarrow> bool" where
  "isExpired now i = (case invite.expiresAt i of None \<Rightarrow> False | Some e \<Rightarrow> e < now)"

definition isMaxUsesReached :: "invite \<Rightarrow> bool" where
  "isMaxUsesReached i = (if invite.maxUses i = 0 then False else invite.uses i \<ge> invite.maxUses i)"

text \<open>
  \<^verbatim>\<open>POST /invites/guilds/:guildId\<close>. \<open>newCode\<close> is the code that \<^verbatim>\<open>nanoid(6)\<close> draws;
  the unique index on \<^verbatim>\<open>code\<close> makes \<^verbatim>\<open>save\<close> throw when the code is taken.
\<close>

definition createInvite :: "date \<Rightarrow> string \<Rightarrow> objectId \<Rightarrow> objectId \<Rightarrow> store \<Rightarrow> outcome" where
  "createInvite now newCode userId guildId s =
     (case findGuild s guildId of
        None \<Rightarrow> reply 404 (Text ''Guild not found'') s
      | Some g \<Rightarrow>
          if userId \<notin> set (guild.members g) then
            reply 403 (Text ''You are not a member of this guild'') s
          else if \<not> canCreateInvites g userId then
            reply 403 (Text ''You do not have permission to create invites'') s
          else if findInviteByCode s newCode \<noteq> None then serverError s
          else
            let i = \<lparr>invite.oid = nextId s, invite.code = newCode, invite.guild = guildId,
                     invite.creator = userId, invite.uses = 0, invite.maxUses = 0,
                     invite.expiresAt = Some (now + 7 * 24 * 60 * 60 * 1000)\<rparr>
            in \<lparr>status = 201, body = InviteDoc i,
                db = s\<lparr>invites := invites s @ [i], nextId := Suc (nextId s)\<rparr>, emits = []\<rparr>)"

text \<open>
  \<^verbatim>\<open>guild.roles.find(role => role.name === '@everyone')\<close> followed by
  \<^verbatim>\<open>everyoneRole.members.push(userId)\<close> when a role was found: the first role of that
  name gets the user, in place.
\<close>

fun pushToEveryone :: "objectId \<Rightarrow> role list \<Rightarrow> role list" where
  "pushToEveryone userId [] = []"
| "pushToEveryone userId (r # rs) =
     (if role.name r = ''@everyone''
      then r\<lparr>role.members := role.members r @ [userId]\<rparr> # rs
      else r # pushToEveryone userId rs)"

text \<open>
  \<^verbatim>\<open>POST /invites/join\<close>. The validator trims the code. The checks return before any
  write; the writes are \<^verbatim>\<open>guild.save()\<close> and then \<^verbatim>\<open>invite.save()\<close>.
\<close>

definition joinGuild :: "date \<Rightarrow> objectId \<Rightarrow> string \<Rightarrow> store \<Rightarrow> outcome" where
  "joinGuild now userId rawCode s =
     (let inviteCode = trim rawCode in
      case findInviteByCode s inviteCode of
        None \<Rightarrow> reply 404 (Text ''Invalid invite code'') s
      | Some i \<Rightarrow>
          if isExpired now i then reply 400 (Text ''Invite has expired'') s
          else if isMaxUsesReached i then reply 400 (Text ''Invite has reached maximum uses'') s
          else
            (case findGuild s (invite.guild i) of
               None \<Rightarrow> reply 404 (Text ''Guild not found'') s
             | Some g \<Rightarrow>
                 if userId \<in> set (guild.members g) then
                   reply 400 (Text ''You are already a member of this guild'') s
                 else
                   let g' = g\<lparr>guild.members := guild.members g @ [userId],
                              guild.roles := pushToEveryone userId (guild.roles g)\<rparr>;
                       i' = i\<lparr>invite.uses := invite.uses i + 1\<rparr>;
                       s' = saveInvite i' (saveGuild g' s)
                   in \<lparr>status = 200,
                       body = (case findGuild s' (guild.oid g') of
                                 Some p \<Rightarrow> GuildDoc p | None \<Rightarrow> Text ''null''),
                       db = s',
                       emits = [(GuildRoom (guild.oid g'), ''memberJoin'',
                                 Ids [(''guildId'', guild.oid g'), (''user'', userId)])]\<rparr>))"

section \<open>Channels\<close>

text \<open>
  \<^verbatim>\<open>DELETE /channels/:id\<close>. \<open>channelCount\<close> is
  \<^verbatim>\<open>Channel.countDocuments({ guild: channel.guild })\<close>.
\<close>

definition channelCount :: "store \<Rightarrow> objectId \<Rightarrow> nat" where
  "channelCount s guildId = length (filter (\<lambda>c. channel.guild c = guildId) (channels s))"

definition deleteChannel :: "objectId \<Rightarrow> objectId \<Rightarrow> store \<Rightarrow> outcome" where
  "deleteChannel userId channelId s =
     (case findChannel s channelId of
        None \<Rightarrow> reply 404 (Text ''Channel not found'') s
      | Some c \<Rightarrow>
          (case findGuild s (channel.guild c) of
             None \<Rightarrow> serverError s
           | Some g \<Rightarrow>
               if \<not> canManageChannels g userId then
                 reply 403 (Text ''You do not have permission to manage channels'') s
               else if channelCount s (channel.guild c) \<le> 1 then
                 reply 400 (Text ''Cannot delete the last channel in a guild'') s
               else
                 \<lparr>status = 200, body = Text ''Channel deleted successfully'',
                  db = s\<lparr>messages := filter (\<lambda>m. message.channel m \<noteq> Some channelId) (messages s),
                         channels := filter (\<lambda>x. channel.oid x \<noteq> channelId) (channels s)\<rparr>,
                  emits = [(ChannelRoom channelId, ''channelDelete'', ChannelDoc c),
                           (GuildRoom (channel.guild c), ''channelDelete'', ChannelDoc c)]\<rparr>))"

text \<open>
  \<^verbatim>\<open>POST /channels/:id/messages\<close>: membership of the guild, then \<^verbatim>\<open>canSendMessages\<close>.
\<close>

definition createChannelMessage :: "objectId \<Rightarrow> objectId \<Rightarrow> string \<Rightarrow> store \<Rightarrow> outcome" where
  "createChannelMessage userId channelId rawContent s =
     (let trimmed = trim rawContent in
      if \<not> isLength 1 2000 trimmed then reply 400 ValidationErrors s
      else
        (case findChannel s channelId of
           None \<Rightarrow> reply 404 (Text ''Channel not found'') s
         | Some c \<Rightarrow>
             (case findGuild s (channel.guild c) of
                None \<Rightarrow> serverError s
              | Some g \<Rightarrow>
                  if userId \<notin> set (guild.members g) then
                    reply 403 (Text ''You are not a member of this guild'') s
                  else if \<not> canSendMessages g userId then
                    reply 403
                      (Text ''You do not have permission to send messages in this channel'') s
                  else
                    let m = \<lparr>message.oid = nextId s, message.content = trimmed,
                             message.author = userId, message.channel = Some channelId,
                             message.conversationId = None\<rparr>
                    in \<lparr>status = 201, body = MessageDoc m,
                        db = s\<lparr>messages := messages s @ [m], nextId := Suc (nextId s)\<rparr>,
                        emits = [(ChannelRoom channelId, ''newMessage'', MessageDoc m)]\<rparr>)))"

section \<open>Messages\<close>

text \<open>
  \<^verbatim>\<open>DELETE /messages/:id\<close>. \<open>hasPermission\<close> is the variable of that name: authorship,
  replaced by the moderation check of the channel's guild when the requester is not the
  author and the message has a channel. \<open>None\<close> is the exception of reading
  \<^verbatim>\<open>channel.guild\<close> or \<^verbatim>\<open>guild.owner\<close> of a document that does not exist.
\<close>

definition hasPermission :: "store \<Rightarrow> objectId \<Rightarrow> message \<Rightarrow> bool option" where
  "hasPermission s userId m =
     (let isAuthor = (message.author m = userId) in
      case message.channel m of
        None \<Rightarrow> Some isAuthor
      | Some channelId \<Rightarrow>
          if isAuthor then Some isAuthor
          else
            (case findChannel s channelId of
               None \<Rightarrow> None
             | Some c \<Rightarrow>
                 (case findGuild s (channel.guild c) of
                    None \<Rightarrow> None
                  | Some g \<Rightarrow> Some (canManageMessages g userId))))"

definition messageDeleteEmits :: "objectId \<Rightarrow> message \<Rightarrow> emit list" where
  "messageDeleteEmits messageId m =
     (case message.channel m of
        Some c \<Rightarrow> [(ChannelRoom c, ''messageDelete'', Ids [(''_id'', messageId), (''channel'', c)])]
      | None \<Rightarrow>
          (case message.conversationId m of
             Some v \<Rightarrow>
               [(ConversationRoom v, ''messageDelete'',
                 Ids [(''_id'', messageId), (''conversationId'', v)])]
           | None \<Rightarrow> []))"

definition deleteMessage :: "objectId \<Rightarrow> objectId \<Rightarrow> store \<Rightarrow> outcome" where
  "deleteMessage userId messageId s =
     (case findMessage s messageId of
        None \<Rightarrow> reply 404 (Text ''Message not found'') s
      | Some m \<Rightarrow>
          (case hasPermission s userId m of
             None \<Rightarrow> serverError s
           | Some False \<Rightarrow>
               reply 403 (Text ''You do not have permission to delete this message'') s
           | Some True \<Rightarrow>
               \<lparr>status = 200, body = Text ''Message deleted successfully'',
                db = s\<lparr>messages := filter (\<lambda>x. message.oid x \<noteq> messageId) (messages s)\<rparr>,
                emits = messageDeleteEmits messageId m\<rparr>))"

section \<open>Conversations\<close>

text \<open>
  \<^verbatim>\<open>POST /conversations\<close>. The query \<^verbatim>\<open>{ participants: { $all: [userId, recipient] } }\<close>
  matches a conversation whose participants contain both ids.
\<close>

definition findExisting :: "store \<Rightarrow> objectId \<Rightarrow> objectId \<Rightarrow> conversation option" where
  "findExisting s userId recipient =
     find (\<lambda>c. userId \<in> set (conversation.participants c)
              \<and> recipient \<in> set (conversation.participants c)) (conversations s)"

definition createConversation :: "objectId \<Rightarrow> objectId \<Rightarrow> store \<Rightarrow> outcome" where
  "createConversation userId recipient s =
     (if recipient \<notin> set (users s) then reply 404 (Text ''Recipient not found'') s
      else
        (case findExisting s userId recipient of
           Some existingConversation \<Rightarrow> reply 200 (ConversationDoc existingConversation) s
         | None \<Rightarrow>
             let c = \<lparr>conversation.oid = nextId s,
                      conversation.participants = [userId, recipient],
                      conversation.creator = userId, conversation.lastMessage = None\<rparr>
             in \<lparr>status = 201, body = ConversationDoc c,
                 db = s\<lparr>conversations := conversations s @ [c], nextId := Suc (nextId s)\<rparr>,
                 emits = [(UserRoom recipient, ''newConversation'', ConversationDoc c)]\<rparr>))"

text \<open>
  \<^verbatim>\<open>POST /conversations/:id/messages\<close>: one \<^verbatim>\<open>emit\<close> per participant in the
  \<^verbatim>\<open>forEach\<close>, then the one to the room of the conversation.
\<close>

definition sendMessage :: "objectId \<Rightarrow> objectId \<Rightarrow> string \<Rightarrow> store \<Rightarrow> outcome" where
  "sendMessage userId convId rawContent s =
     (let trimmed = trim rawContent in
      if \<not> isLength 1 2000 trimmed then reply 400 ValidationErrors s
      else
        (case findConversation s convId of
           None \<Rightarrow> reply 404 (Text ''Conversation not found'') s
         | Some c \<Rightarrow>
             if userId \<notin> set (conversation.participants c) then
               reply 403 (Text ''You are not a participant in this conversation'') s
             else
               let m = \<lparr>message.oid = nextId s, message.content = trimmed,
                        message.author = userId, message.channel = None,
                        message.conversationId = Some convId\<rparr>;
                   s' = saveConversation (c\<lparr>conversation.lastMessage := Some (message.oid m)\<rparr>)
                          (s\<lparr>messages := messages s @ [m], nextId := Suc (nextId s)\<rparr>)
               in \<lparr>status = 201, body = MessageDoc m, db = s',
                   emits = map (\<lambda>participantId. (UserRoom participantId, ''newMessage'', MessageDoc m))
                             (conversation.participants c)
                           @ [(ConversationRoom convId, ''newMessage'', MessageDoc m)]\<rparr>))"

section \<open>The server\<close>

text \<open>
  The routes that change the store, one constructor per route with the authenticated
  user, the parameters of the path, the fields of the body and, where the handler reads
  the clock or draws a code, the time and the code. A run of the server handles the
  requests one after the other.
\<close>

datatype request =
  CreateGuild objectId string
  | DeleteGuild objectId objectId
  | RemoveMember objectId objectId bool objectId
  | CreateRole objectId objectId string "string option" "string list option"
  | CreateInvite date string objectId objectId
  | JoinGuild date objectId string
  | DeleteChannel objectId objectId
  | CreateChannelMessage objectId objectId string
  | DeleteMessage objectId objectId
  | CreateConversation objectId objectId
  | SendMessage objectId objectId string

fun handle :: "request \<Rightarrow> store \<Rightarrow> outcome" where
  "handle (CreateGuild u n) s = createGuild u n s"
| "handle (DeleteGuild u g) s = deleteGuild u g s"
| "handle (RemoveMember q g k u) s = removeMember q g k u s"
| "handle (CreateRole q g n c ps) s = createRole q g n c ps s"
| "handle (CreateInvite t c u g) s = createInvite t c u g s"
| "handle (JoinGuild t u c) s = joinGuild t u c s"
| "handle (DeleteChannel u c) s = deleteChannel u c s"
| "handle (CreateChannelMessage u c x) s = createChannelMessage u c x s"
| "handle (DeleteMessage u m) s = deleteMessage u m s"
| "handle (CreateConversation u r) s = createConversation u r s"
| "handle (SendMessage u c x) s = sendMessage u c x s"

fun run :: "request list \<Rightarrow> store \<Rightarrow> store" where
  "run [] s = s"
| "run (r # rs) s = run rs (db (handle r s))"

section \<open>Example stores\<close>

text \<open>
  Three registered users and nothing else; the same after user 1 has created a guild
  (guild 10 with its channel 11); after user 1 has also created the invite \<^verbatim>\<open>abc123\<close>
  at time 1000 (invite 12); and after user 1 has then deleted the guild.
\<close>

definition emptyStore :: store where
  "emptyStore = \<lparr>users = [1, 2, 3], guilds = [], channels = [], messages = [],
                  conversations = [], invites = [], nextId = 10\<rparr>"

definition guildStore :: store where
  "guildStore = run [CreateGuild 1 ''my guild''] emptyStore"

definition inviteStore :: store where
  "inviteStore = run [CreateInvite 1000 ''abc123'' 1 10] guildStore"

definition danglingStore :: store where
  "danglingStore = run [DeleteGuild 1 10] inviteStore"

text \<open>The two roles of a new guild and the channel of \<open>guildStore\<close>.\<close>

definition everyoneRole :: "objectId list \<Rightarrow> role" where
  "everyoneRole ms =
     \<lparr>role.name = ''@everyone'', role.color = ''#99AAB5'',
      role.permissions = [''VIEW_CHANNELS'', ''SEND_MESSAGES'', ''READ_MESSAGE_HISTORY''],
      role.position = 0, role.members = ms\<rparr>"

definition adminRole :: "objectId list \<Rightarrow> role" where
  "adminRole ms =
     \<lparr>role.name = ''Admin'', role.color = ''#F04747'', role.permissions = [''ADMINISTRATOR''],
      role.position = 1, role.members = ms\<rparr>"

definition generalChannel :: channel where
  "generalChannel =
     \<lparr>channel.oid = 11, channel.name = ''general'', channel.topic = '''', channel.guild = 10,
      channel.category = ''Text Channels'', channel.type = ''text''\<rparr>"

text \<open>
  The store in which user 2 has opened a conversation with user 3 (conversation 12)
  and sent a message in it (message 13), with these two documents.
\<close>

definition dmStore :: store where
  "dmStore = run [CreateConversation 2 3, SendMessage 2 12 ''hello''] guildStore"

definition directMessage :: message where
  "directMessage =
     \<lparr>message.oid = 13, message.content = ''hello'', message.author = 2,
      message.channel = None, message.conversationId = Some 12\<rparr>"

definition directConversation :: conversation where
  "directConversation =
     \<lparr>conversation.oid = 12, conversation.participants = [2, 3],
      conversation.creator = 2, conversation.lastMessage = Some 13\<rparr>"

text \<open>The guild of \<open>guildStore\<close>, as \<^verbatim>\<open>POST /guilds\<close> has saved it.\<close>

definition newGuild :: guild where
  "newGuild =
     \<lparr>guild.oid = 10, guild.name = ''my guild'', guild.owner = 1, guild.members = [1],
      guild.roles = [everyoneRole [1], adminRole [1]]\<rparr>"

text \<open>
  The store after user 2 has redeemed the invite at time 2000, and the conversation
  that \<^verbatim>\<open>POST /conversations\<close> creates for user 1 with recipient 1.
\<close>

definition joinedStore :: store where
  "joinedStore = run [JoinGuild 2000 2 ''abc123''] inviteStore"

definition selfConversation :: conversation where
  "selfConversation =
     \<lparr>conversation.oid = 10, conversation.participants = [1, 1],
      conversation.creator = 1, conversation.lastMessage = None\<rparr>"





section \<open>Invariants\<close>

text \<open>
  Two properties of a store that the theorems below show for every run of the
  server: in every guild the member list of every role is within the member list of
  the guild; and no two conversations have the same set of participants, each
  conversation having two entries in its participant list.
\<close>

definition rolesWithinMembers :: "guild \<Rightarrow> bool" where
  "rolesWithinMembers g =
     list_all (\<lambda>r. set (role.members r) \<subseteq> set (guild.members g)) (guild.roles g)"

definition guildInv :: "store \<Rightarrow> bool" where
  "guildInv s = list_all rolesWithinMembers (guilds s)"



definition convInv :: "store \<Rightarrow> bool" where
  "convInv s = (distinct (map (\<lambda>c. set (conversation.participants c)) (conversations s)) \<and>
     list_all (\<lambda>c. length (conversation.participants c) = 2) (conversations s))"

section \<open>Lemmas on the queries\<close>

lemma find_Some_holds: "find P xs = Some x \<Longrightarrow> P x"
  by (induction xs) (auto split: if_splits)

lemma find_Some_mem: "find P xs = Some x \<Longrightarrow> x \<in> set xs"
  by (induction xs) (auto split: if_splits)

lemma find_replaceFirst_same:
  "find P xs = Some x \<Longrightarrow> P y \<Longrightarrow> find P (replaceFirst P y xs) = Some y"
  by (induction xs) (auto split: if_splits)

lemma find_replaceFirst_other:
  "find Q xs = Some i \<Longrightarrow> P i \<Longrightarrow> Q y \<Longrightarrow> find Q (replaceFirst P y xs) = Some y"
  by (induction xs) (auto split: if_splits)

lemma findGuild_saveGuild:
  "findGuild s (guild.oid g') = Some g \<Longrightarrow> findGuild (saveGuild g' s) (guild.oid g') = Some g'"
  by (simp add: findGuild_def saveGuild_def find_replaceFirst_same)

lemma findInviteByCode_saveInvite:
  "findInviteByCode s c = Some i \<Longrightarrow> invite.oid i' = invite.oid i \<Longrightarrow> invite.code i' = c \<Longrightarrow>
   findInviteByCode (saveInvite i' s) c = Some i'"
  by (simp add: findInviteByCode_def saveInvite_def find_replaceFirst_other)

lemma pushToEveryone_find:
  "find (\<lambda>r. role.name r = ''@everyone'') rs = Some e \<Longrightarrow>
   find (\<lambda>r. role.name r = ''@everyone'') (pushToEveryone u rs) =
     Some (e\<lparr>role.members := role.members e @ [u]\<rparr>)"
  by (induction rs) (auto split: if_splits)

lemma pushToEveryone_none:
  "find (\<lambda>r. role.name r = ''@everyone'') rs = None \<Longrightarrow> pushToEveryone u rs = rs"
  by (induction rs) (auto split: if_splits)

lemma isExpired_iff: "isExpired now i \<longleftrightarrow> (\<exists>e. invite.expiresAt i = Some e \<and> e < now)"
  by (simp add: isExpired_def split: option.splits)

lemma isMaxUsesReached_iff:
  "isMaxUsesReached i \<longleftrightarrow> invite.maxUses i \<noteq> 0 \<and> invite.uses i \<ge> invite.maxUses i"
  by (simp add: isMaxUsesReached_def)

section \<open>The permission gates\<close>





section \<open>Guild creation\<close>

text \<open>
  C6. Immediately after user \<open>A\<close> has created a guild (the name is valid, so the
  answer is 201): the guild is the new last document of the collection, \<open>A\<close> is its
  owner and a member, exactly one of its roles is named \<^verbatim>\<open>@everyone\<close> and \<open>A\<close> is in the
  member list of that role, exactly one of its roles grants ADMINISTRATOR and \<open>A\<close> is in
  the member list of that role, and the new last channel of the store is a text channel
  named \<^verbatim>\<open>general\<close> that belongs to the guild.
\<close>

theorem createGuild_defaults:
  assumes "isLength 2 100 (trim rawName)"
  shows "\<exists>g c e a.
     status (createGuild A rawName s) = 201 \<and>
     guilds (db (createGuild A rawName s)) = guilds s @ [g] \<and>
     guild.owner g = A \<and> A \<in> set (guild.members g) \<and>
     filter (\<lambda>r. role.name r = ''@everyone'') (guild.roles g) = [e] \<and>
     A \<in> set (role.members e) \<and>
     filter (\<lambda>r. ''ADMINISTRATOR'' \<in> set (role.permissions r)) (guild.roles g) = [a] \<and>
     A \<in> set (role.members a) \<and>
     channels (db (createGuild A rawName s)) = channels s @ [c] \<and>
     channel.name c = ''general'' \<and> channel.type c = ''text'' \<and>
     channel.guild c = guild.oid g"
  using assms by (simp add: createGuild_def preSave_def Let_def)

theorem createGuild_defaults_witness:
  "isLength 2 100 (trim ''my guild'') \<and>
   (\<exists>g c e a.
     status (createGuild 1 ''my guild'' emptyStore) = 201 \<and>
     guilds (db (createGuild 1 ''my guild'' emptyStore)) = guilds emptyStore @ [g] \<and>
     guild.owner g = 1 \<and> 1 \<in> set (guild.members g) \<and>
     filter (\<lambda>r. role.name r = ''@everyone'') (guild.roles g) = [e] \<and>
     1 \<in> set (role.members e) \<and>
     filter (\<lambda>r. ''ADMINISTRATOR'' \<in> set (role.permissions r)) (guild.roles g) = [a] \<and>
     1 \<in> set (role.members a) \<and>
     channels (db (createGuild 1 ''my guild'' emptyStore)) = channels emptyStore @ [c] \<and>
     channel.name c = ''general'' \<and> channel.type c = ''text'' \<and>
     channel.guild c = guild.oid g)"
proof -
  have h: "isLength 2 100 (trim ''my guild'')" by code_simp
  show ?thesis using h createGuild_defaults [OF h, of 1 emptyStore] by blast
qed

section \<open>The rooms of a direct message\<close>



section \<open>Direct messages are deleted by their author only\<close>

text \<open>
  C10. A message that belongs to a conversation has no channel. A request to delete it
  from anyone but its author is answered 403 (Forbidden), whatever the guilds of the
  store say about the requester (owner of a guild, member of a role with
  MANAGE_MESSAGES or ADMINISTRATOR): the store is unchanged, so the message is still
  there, and nothing is emitted. The moderation check is consulted for messages with a
  channel only.
\<close>

theorem direct_message_delete_author_only:
  assumes "findMessage s messageId = Some m"
    and "message.channel m = None"
    and "message.author m \<noteq> userId"
  shows "deleteMessage userId messageId s =
           reply 403 (Text ''You do not have permission to delete this message'') s
         \<and> db (deleteMessage userId messageId s) = s
         \<and> findMessage (db (deleteMessage userId messageId s)) messageId = Some m
         \<and> emits (deleteMessage userId messageId s) = []"
  using assms by (simp add: deleteMessage_def hasPermission_def reply_def)

text \<open>
  In \<open>dmStore\<close> user 1 owns guild 10, and so passes \<^verbatim>\<open>canManageMessages\<close> there; the
  message of user 2 to user 3 is still out of user 1's reach.
\<close>

theorem direct_message_delete_author_only_witness:
  "findMessage dmStore 13 = Some directMessage \<and> message.channel directMessage = None
   \<and> message.author directMessage \<noteq> 1
   \<and> findGuild dmStore 10 = Some newGuild \<and> canManageMessages newGuild 1
   \<and> status (deleteMessage 1 13 dmStore) = 403
   \<and> findMessage (db (deleteMessage 1 13 dmStore)) 13 = Some directMessage"
proof -
  have h1: "findMessage dmStore 13 = Some directMessage" by code_simp
  have h2: "message.channel directMessage = None" by (simp add: directMessage_def)
  have h3: "message.author directMessage \<noteq> 1" by (simp add: directMessage_def)
  have h4: "findGuild dmStore 10 = Some newGuild \<and> canManageMessages newGuild 1"
    by code_simp
  show ?thesis
    using direct_message_delete_author_only [OF h1 h2 h3] h1 h2 h3 h4 by (simp add: reply_def)
qed

section \<open>Invite redemption\<close>

text \<open>
  C3. A redeem either succeeds (200) or leaves the store as it was. After a redeem that
  fails, for whatever reason, the store is unchanged: no field of any invite or guild
  has changed. After one that succeeds, the invite found under the code is the same
  invite with \<^verbatim>\<open>uses\<close> one higher, the user, who was not a member of the invite's guild,
  is in its member list, and the user is in the member list of the guild's role named
  \<^verbatim>\<open>@everyone\<close>: the first role of that name, the one \<^verbatim>\<open>find\<close> returns. A guild
  with no role of that name keeps its roles as they were.
\<close>

theorem joinGuild_atomic:
  "(status (joinGuild now userId rawCode s) \<noteq> 200 \<longrightarrow> db (joinGuild now userId rawCode s) = s) \<and>
   (status (joinGuild now userId rawCode s) = 200 \<longrightarrow>
      (\<exists>i g g'.
         findInviteByCode s (trim rawCode) = Some i \<and>
         findGuild s (invite.guild i) = Some g \<and>
         findInviteByCode (db (joinGuild now userId rawCode s)) (trim rawCode) =
           Some (i\<lparr>invite.uses := invite.uses i + 1\<rparr>) \<and>
         findGuild (db (joinGuild now userId rawCode s)) (invite.guild i) = Some g' \<and>
         userId \<notin> set (guild.members g) \<and>
         userId \<in> set (guild.members g') \<and>
         (case find (\<lambda>r. role.name r = ''@everyone'') (guild.roles g) of
            None \<Rightarrow> guild.roles g' = guild.roles g
          | Some e \<Rightarrow>
              (\<exists>e'. find (\<lambda>r. role.name r = ''@everyone'') (guild.roles g') = Some e' \<and>
                    userId \<in> set (role.members e')))))"
proof (cases "findInviteByCode s (trim rawCode)")
  case None
  then show ?thesis by (simp add: joinGuild_def reply_def)
next
  case (Some i)
  note inv = Some
  show ?thesis
  proof (cases "findGuild s (invite.guild i)")
    case None
    with inv show ?thesis by (simp add: joinGuild_def reply_def)
  next
    case (Some g)
    have oid: "guild.oid g = invite.guild i"
      using Some find_Some_holds [of "\<lambda>x. guild.oid x = invite.guild i" "guilds s" g]
      by (simp add: findGuild_def)
    show ?thesis
    proof (cases "isExpired now i \<or> isMaxUsesReached i \<or> userId \<in> set (guild.members g)")
      case True
      with inv Some show ?thesis by (auto simp add: joinGuild_def reply_def)
    next
      case False
      define g' where "g' = g\<lparr>guild.members := guild.members g @ [userId],
                              guild.roles := pushToEveryone userId (guild.roles g)\<rparr>"
      define i' where "i' = i\<lparr>invite.uses := invite.uses i + 1\<rparr>"
      have out: "joinGuild now userId rawCode s =
          \<lparr>status = 200,
           body = (case findGuild (saveInvite i' (saveGuild g' s)) (guild.oid g') of
                     Some p \<Rightarrow> GuildDoc p | None \<Rightarrow> Text ''null''),
           db = saveInvite i' (saveGuild g' s),
           emits = [(GuildRoom (guild.oid g'), ''memberJoin'',
                     Ids [(''guildId'', guild.oid g'), (''user'', userId)])]\<rparr>"
        using inv Some False by (simp add: joinGuild_def Let_def g'_def i'_def)
      have code: "invite.code i = trim rawCode"
        using inv find_Some_holds [of "\<lambda>x. invite.code x = trim rawCode" "invites s" i]
        by (simp add: findInviteByCode_def)
      have fi: "findInviteByCode (saveInvite i' (saveGuild g' s)) (trim rawCode) = Some i'"
      proof (rule findInviteByCode_saveInvite)
        show "findInviteByCode (saveGuild g' s) (trim rawCode) = Some i"
          using inv by (simp add: findInviteByCode_def saveGuild_def)
      qed (simp_all add: i'_def code)
      have "findGuild (saveGuild g' s) (guild.oid g') = Some g'"
        by (rule findGuild_saveGuild [of s g' g]) (simp add: g'_def oid Some)
      then have fg: "findGuild (saveInvite i' (saveGuild g' s)) (invite.guild i) = Some g'"
        by (simp add: findGuild_def saveInvite_def g'_def oid)
      have roles: "case find (\<lambda>r. role.name r = ''@everyone'') (guild.roles g) of
            None \<Rightarrow> guild.roles g' = guild.roles g
          | Some e \<Rightarrow>
              (\<exists>e'. find (\<lambda>r. role.name r = ''@everyone'') (guild.roles g') = Some e' \<and>
                    userId \<in> set (role.members e'))"
        by (auto simp add: g'_def pushToEveryone_find pushToEveryone_none split: option.splits)
      have mem: "userId \<in> set (guild.members g')" by (simp add: g'_def)
      from False have nm: "userId \<notin> set (guild.members g)" by simp
      show ?thesis
        unfolding out using inv Some fi fg roles mem nm
        by (simp add: i'_def) 
    qed
  qed
qed

theorem joinGuild_atomic_witness:
  "status (joinGuild 2000 2 ''abc123'' inviteStore) = 200 \<and>
   (\<exists>i g g'.
      findInviteByCode inviteStore (trim ''abc123'') = Some i \<and>
      findGuild inviteStore (invite.guild i) = Some g \<and>
      findInviteByCode (db (joinGuild 2000 2 ''abc123'' inviteStore)) (trim ''abc123'') =
        Some (i\<lparr>invite.uses := invite.uses i + 1\<rparr>) \<and>
      findGuild (db (joinGuild 2000 2 ''abc123'' inviteStore)) (invite.guild i) = Some g' \<and>
      2 \<notin> set (guild.members g) \<and> 2 \<in> set (guild.members g')) \<and>
   status (joinGuild 2000 1 ''abc123'' inviteStore) \<noteq> 200 \<and>
   db (joinGuild 2000 1 ''abc123'' inviteStore) = inviteStore"
proof -
  have h1: "status (joinGuild 2000 2 ''abc123'' inviteStore) = 200" by code_simp
  have h2: "status (joinGuild 2000 1 ''abc123'' inviteStore) \<noteq> 200" by code_simp
  show ?thesis
    using joinGuild_atomic [of 2000 2 "''abc123''" inviteStore]
      joinGuild_atomic [of 2000 1 "''abc123''" inviteStore] h1 h2
    by blast
qed

text \<open>
  C4 (as amended). The outcome of a redeem is decided by five checks, in this order.
  The answer is 404 \<^verbatim>\<open>Invalid invite code\<close> iff no invite has the (trimmed) code;
  otherwise 400 \<^verbatim>\<open>Invite has expired\<close> iff the invite has an expiry date before now;
  otherwise 400 \<^verbatim>\<open>Invite has reached maximum uses\<close> iff \<^verbatim>\<open>maxUses\<close> is not 0 and
  \<^verbatim>\<open>uses >= maxUses\<close>; otherwise 404 \<^verbatim>\<open>Guild not found\<close> iff the invite's guild is not in
  the store; otherwise 400 \<^verbatim>\<open>You are already a member of this guild\<close> iff the user is
  in the guild's member list; otherwise the redeem succeeds. So a 404 is the answer
  both when the code is unknown and when a live invite has outlived its guild.
\<close>

theorem joinGuild_checks_in_order:
  "(body (joinGuild now userId rawCode s) = Text ''Invalid invite code''
      \<longleftrightarrow> findInviteByCode s (trim rawCode) = None) \<and>
   (body (joinGuild now userId rawCode s) = Text ''Invite has expired''
      \<longleftrightarrow> (\<exists>i e. findInviteByCode s (trim rawCode) = Some i \<and>
                 invite.expiresAt i = Some e \<and> now > e)) \<and>
   (body (joinGuild now userId rawCode s) = Text ''Invite has reached maximum uses''
      \<longleftrightarrow> (\<exists>i. findInviteByCode s (trim rawCode) = Some i \<and> \<not> isExpired now i \<and>
               invite.maxUses i \<noteq> 0 \<and> invite.uses i \<ge> invite.maxUses i)) \<and>
   (body (joinGuild now userId rawCode s) = Text ''Guild not found''
      \<longleftrightarrow> (\<exists>i. findInviteByCode s (trim rawCode) = Some i \<and> \<not> isExpired now i \<and>
               \<not> isMaxUsesReached i \<and> findGuild s (invite.guild i) = None)) \<and>
   (body (joinGuild now userId rawCode s) = Text ''You are already a member of this guild''
      \<longleftrightarrow> (\<exists>i g. findInviteByCode s (trim rawCode) = Some i \<and> \<not> isExpired now i \<and>
                 \<not> isMaxUsesReached i \<and> findGuild s (invite.guild i) = Some g \<and>
                 userId \<in> set (guild.members g))) \<and>
   (status (joinGuild now userId rawCode s) = 200
      \<longleftrightarrow> (\<exists>i g. findInviteByCode s (trim rawCode) = Some i \<and> \<not> isExpired now i \<and>
                 \<not> isMaxUsesReached i \<and> findGuild s (invite.guild i) = Some g \<and>
                 userId \<notin> set (guild.members g))) \<and>
   (status (joinGuild now userId rawCode s) = 404
      \<longleftrightarrow> body (joinGuild now userId rawCode s) = Text ''Invalid invite code'' \<or>
          body (joinGuild now userId rawCode s) = Text ''Guild not found'') \<and>
   (status (joinGuild now userId rawCode s) = 400
      \<longleftrightarrow> body (joinGuild now userId rawCode s) = Text ''Invite has expired'' \<or>
          body (joinGuild now userId rawCode s) = Text ''Invite has reached maximum uses'' \<or>
          body (joinGuild now userId rawCode s) = Text ''You are already a member of this guild'') \<and>
   (isExpired now j \<longleftrightarrow> (\<exists>e. invite.expiresAt j = Some e \<and> now > e)) \<and>
   (isMaxUsesReached j \<longleftrightarrow> invite.maxUses j \<noteq> 0 \<and> invite.uses j \<ge> invite.maxUses j)"
proof (cases "findInviteByCode s (trim rawCode)")
  case None
  then have "joinGuild now userId rawCode s = reply 404 (Text ''Invalid invite code'') s"
    by (simp add: joinGuild_def)
  with None show ?thesis by (simp add: reply_def isExpired_iff isMaxUsesReached_iff)
next
  case (Some i)
  note inv = Some
  show ?thesis
  proof (cases "isExpired now i")
    case True
    with inv have "joinGuild now userId rawCode s = reply 400 (Text ''Invite has expired'') s"
      by (simp add: joinGuild_def)
    with inv True show ?thesis by (simp add: reply_def isExpired_iff isMaxUsesReached_iff)
  next
    case False
    note ne = False
    show ?thesis
    proof (cases "isMaxUsesReached i")
      case True
      with inv ne have "joinGuild now userId rawCode s =
          reply 400 (Text ''Invite has reached maximum uses'') s"
        by (simp add: joinGuild_def)
      with inv ne True show ?thesis by (simp add: reply_def isExpired_iff isMaxUsesReached_iff)
    next
      case False
      note nm = False
      show ?thesis
      proof (cases "findGuild s (invite.guild i)")
        case None
        with inv ne nm have "joinGuild now userId rawCode s = reply 404 (Text ''Guild not found'') s"
          by (simp add: joinGuild_def)
        with inv ne nm None show ?thesis
          by (simp add: reply_def isExpired_iff isMaxUsesReached_iff)
      next
        case (Some g)
        show ?thesis
        proof (cases "userId \<in> set (guild.members g)")
          case True
          with inv ne nm Some have "joinGuild now userId rawCode s =
              reply 400 (Text ''You are already a member of this guild'') s"
            by (simp add: joinGuild_def)
          with inv ne nm Some True show ?thesis
            by (simp add: reply_def isExpired_iff isMaxUsesReached_iff)
        next
          case False
          with inv ne nm Some have "status (joinGuild now userId rawCode s) = 200"
            and "\<exists>x. body (joinGuild now userId rawCode s) = GuildDoc x
                   \<or> body (joinGuild now userId rawCode s) = Text ''null''"
            by (simp_all add: joinGuild_def Let_def split: option.splits)
          with inv ne nm Some False show ?thesis
            by (auto simp add: isExpired_iff isMaxUsesReached_iff)
        qed
      qed
    qed
  qed
qed

theorem joinGuild_checks_in_order_witness:
  "body (joinGuild 2000 1 ''abc123'' inviteStore) = Text ''You are already a member of this guild'' \<and>
   (\<exists>i g. findInviteByCode inviteStore (trim ''abc123'') = Some i \<and> \<not> isExpired 2000 i \<and>
      \<not> isMaxUsesReached i \<and> findGuild inviteStore (invite.guild i) = Some g \<and>
      1 \<in> set (guild.members g))"
proof -
  have h: "body (joinGuild 2000 1 ''abc123'' inviteStore) =
      Text ''You are already a member of this guild''" by code_simp
  show ?thesis
    using h joinGuild_checks_in_order [of 2000 1 "''abc123''" inviteStore] by blast
qed

text \<open>
  The claim as stated fails on the store in which user 1 has created a guild and an
  invite and then deleted the guild: the invite \<^verbatim>\<open>abc123\<close> exists, is not expired and
  is unlimited, and redeeming it is answered 404.
\<close>

theorem joinGuild_notFound_counterexample:
  "findInviteByCode danglingStore (trim ''abc123'') \<noteq> None \<and>
   status (joinGuild 2000 2 ''abc123'' danglingStore) = 404 \<and>
   body (joinGuild 2000 2 ''abc123'' danglingStore) = Text ''Guild not found''"
  by code_simp

section \<open>The last channel of a guild\<close>

text \<open>
  C5 (as amended). When channel \<open>c\<close> is the only channel of its guild, no request to
  delete it succeeds and the store is unchanged, so the channel still exists and the
  guild's channel count is the same. The answer depends on the requester: 400
  \<^verbatim>\<open>Cannot delete the last channel in a guild\<close> for a user who passes
  \<^verbatim>\<open>canManageChannels\<close>, and 403 for a user who does not, since the permission check
  comes first. (A channel whose guild is not in the store makes the handler throw: 500.)
\<close>

theorem deleteChannel_last_channel:
  assumes "findChannel s channelId = Some c"
    and "channelCount s (channel.guild c) \<le> 1"
  shows "db (deleteChannel userId channelId s) = s \<and>
         status (deleteChannel userId channelId s) \<noteq> 200 \<and>
         findChannel (db (deleteChannel userId channelId s)) channelId = Some c \<and>
         channelCount (db (deleteChannel userId channelId s)) (channel.guild c) =
           channelCount s (channel.guild c) \<and>
         (case findGuild s (channel.guild c) of
            None \<Rightarrow> deleteChannel userId channelId s = serverError s
          | Some g \<Rightarrow>
              deleteChannel userId channelId s =
                (if canManageChannels g userId
                 then reply 400 (Text ''Cannot delete the last channel in a guild'') s
                 else reply 403 (Text ''You do not have permission to manage channels'') s))"
  using assms
  by (simp add: deleteChannel_def reply_def serverError_def split: option.splits)

theorem deleteChannel_last_channel_witness:
  "findChannel guildStore 11 = Some generalChannel \<and>
   channelCount guildStore (channel.guild generalChannel) \<le> 1 \<and>
   status (deleteChannel 1 11 guildStore) = 400 \<and>
   body (deleteChannel 1 11 guildStore) = Text ''Cannot delete the last channel in a guild'' \<and>
   db (deleteChannel 1 11 guildStore) = guildStore"
proof -
  have h1: "findChannel guildStore 11 = Some generalChannel" by code_simp
  have h2: "channelCount guildStore (channel.guild generalChannel) \<le> 1" by code_simp
  have h3: "findGuild guildStore (channel.guild generalChannel) = Some newGuild"
    by code_simp
  have h4: "canManageChannels newGuild 1" by code_simp
  show ?thesis
    using deleteChannel_last_channel [OF h1 h2, of 1] h1 h2 h3 h4
    by (simp add: reply_def)
qed

text \<open>
  The claim as stated fails for user 2, who is not the owner and has no role: the
  channel is the only one of the guild, and the answer is 403, not the 400 of the
  last-channel check.
\<close>

theorem deleteChannel_last_channel_counterexample:
  "findChannel guildStore 11 = Some generalChannel \<and>
   channelCount guildStore (channel.guild generalChannel) = 1 \<and>
   status (deleteChannel 2 11 guildStore) = 403 \<and>
   body (deleteChannel 2 11 guildStore) = Text ''You do not have permission to manage channels''"
  by code_simp

section \<open>Role members are guild members\<close>

lemma list_all_replaceFirst:
  "list_all Q xs \<Longrightarrow> Q y \<Longrightarrow> list_all Q (replaceFirst P y xs)"
  by (induction xs) auto

lemma find_map_preserving:
  "(\<And>x. P (f x) = P x) \<Longrightarrow> find P (map f xs) = map_option f (find P xs)"
  by (induction xs) auto

lemma rolesWithinMembers_preSave:
  "guild.roles g = [] \<Longrightarrow> guild.owner g \<in> set (guild.members g) \<Longrightarrow> rolesWithinMembers (preSave g)"
  by (simp add: rolesWithinMembers_def preSave_def)

lemma guildInv_createGuild: "guildInv s \<Longrightarrow> guildInv (db (createGuild u n s))"
  by (simp add: guildInv_def createGuild_def reply_def Let_def rolesWithinMembers_preSave)

lemma guildInv_deleteGuild: "guildInv s \<Longrightarrow> guildInv (db (deleteGuild u g s))"
  by (auto simp add: guildInv_def deleteGuild_def reply_def list_all_iff split: option.splits)

lemma rolesWithinMembers_pull:
  "rolesWithinMembers g \<Longrightarrow> rolesWithinMembers (pullFromRoles u (pullMember u g))"
  by (auto simp add: rolesWithinMembers_def pullFromRoles_def pullMember_def list_all_iff
      list_ex_iff)

lemma guildInv_removeMember: "guildInv s \<Longrightarrow> guildInv (db (removeMember q g k u s))"
  by (auto simp add: guildInv_def removeMember_def reply_def list_all_iff rolesWithinMembers_pull
      split: option.splits)

lemma findGuild_inv: "guildInv s \<Longrightarrow> findGuild s i = Some g \<Longrightarrow> rolesWithinMembers g"
  using find_Some_mem [of "\<lambda>g. guild.oid g = i" "guilds s" g]
  by (auto simp add: guildInv_def findGuild_def list_all_iff)

lemma guildInv_saveGuild: "guildInv s \<Longrightarrow> rolesWithinMembers g \<Longrightarrow> guildInv (saveGuild g s)"
  by (simp add: guildInv_def saveGuild_def list_all_replaceFirst)

lemma rolesWithinMembers_newRole:
  "rolesWithinMembers g \<Longrightarrow> role.members r = [] \<Longrightarrow>
   rolesWithinMembers (g\<lparr>guild.roles := guild.roles g @ [r]\<rparr>)"
  by (simp add: rolesWithinMembers_def)

lemma guildInv_createRole: "guildInv s \<Longrightarrow> guildInv (db (createRole q g n c ps s))"
  by (auto simp add: createRole_def reply_def Let_def guildInv_saveGuild
      rolesWithinMembers_newRole findGuild_inv split: option.splits)

lemma guildInv_createInvite: "guildInv s \<Longrightarrow> guildInv (db (createInvite t c u g s))"
  by (auto simp add: guildInv_def createInvite_def reply_def serverError_def Let_def split: option.splits)

lemma pushToEveryone_within:
  "list_all (\<lambda>r. set (role.members r) \<subseteq> M) rs \<Longrightarrow>
   list_all (\<lambda>r. set (role.members r) \<subseteq> insert u M) (pushToEveryone u rs)"
  by (induction rs) (auto simp add: list_all_iff)

lemma rolesWithinMembers_join:
  "rolesWithinMembers g \<Longrightarrow>
   rolesWithinMembers (g\<lparr>guild.members := guild.members g @ [u],
                         guild.roles := pushToEveryone u (guild.roles g)\<rparr>)"
  using pushToEveryone_within [of "set (guild.members g)" "guild.roles g" u]
  by (simp add: rolesWithinMembers_def)

lemma guildInv_saveInvite: "guildInv (saveInvite i s) = guildInv s"
  by (simp add: guildInv_def saveInvite_def)

lemma guildInv_joinGuild: "guildInv s \<Longrightarrow> guildInv (db (joinGuild t u c s))"
  by (auto simp add: joinGuild_def reply_def Let_def guildInv_saveInvite guildInv_saveGuild
      rolesWithinMembers_join findGuild_inv split: option.splits)

lemma guilds_other:
  "guilds (db (deleteChannel a ch s)) = guilds s"
  "guilds (db (createChannelMessage a ch x s)) = guilds s"
  "guilds (db (deleteMessage a m s)) = guilds s"
  "guilds (db (createConversation a b s)) = guilds s"
  "guilds (db (sendMessage a c x s)) = guilds s"
  by (simp_all add: deleteChannel_def createChannelMessage_def deleteMessage_def
      createConversation_def sendMessage_def saveConversation_def
      reply_def serverError_def Let_def split: option.splits bool.splits)

lemma guildInv_handle: "guildInv s \<Longrightarrow> guildInv (db (handle r s))"
  by (cases r)
    (simp_all add: guildInv_createGuild guildInv_deleteGuild guildInv_removeMember
      guildInv_createRole guildInv_createInvite guildInv_joinGuild,
     simp_all add: guildInv_def guilds_other)

lemma guildInv_run: "guildInv s \<Longrightarrow> guildInv (run reqs s)"
  by (induction reqs arbitrary: s) (simp_all add: guildInv_handle)

lemma pulled_clean:
  "u \<notin> set (guild.members (pullFromRoles u (pullMember u g))) \<and>
   list_all (\<lambda>r. u \<notin> set (role.members r)) (guild.roles (pullFromRoles u (pullMember u g)))"
  by (auto simp add: pullFromRoles_def pullMember_def list_all_iff list_ex_iff)

lemma pulled_oid: "guild.oid (pullFromRoles u (pullMember u g)) = guild.oid g"
  by (simp add: pullFromRoles_def pullMember_def)

lemma removeMember_removes:
  assumes "status (removeMember q gid k u s) = 200"
  shows "\<exists>g. findGuild (db (removeMember q gid k u s)) gid = Some g \<and>
             u \<notin> set (guild.members g) \<and>
             list_all (\<lambda>r. u \<notin> set (role.members r)) (guild.roles g)"
proof (cases "findGuild s gid")
  case None
  with assms show ?thesis by (simp add: removeMember_def reply_def)
next
  case (Some g)
  let ?f = "\<lambda>x. if guild.oid x = gid then pullFromRoles u (pullMember u x) else x"
  from assms Some have d: "guilds (db (removeMember q gid k u s)) = map ?f (guilds s)"
    by (auto simp add: removeMember_def reply_def split: if_splits)
  have "find (\<lambda>x. guild.oid x = gid) (map ?f (guilds s))
          = map_option ?f (find (\<lambda>x. guild.oid x = gid) (guilds s))"
    by (rule find_map_preserving) (simp add: pulled_oid)
  with Some d have "findGuild (db (removeMember q gid k u s)) gid = Some (?f g)"
    by (simp add: findGuild_def)
  moreover have "guild.oid g = gid"
    using Some find_Some_holds [of "\<lambda>x. guild.oid x = gid" "guilds s" g]
    by (simp add: findGuild_def)
  ultimately show ?thesis using pulled_clean [of u g] by simp
qed

text \<open>
  C8. In every store that a run of the server (guild creation, invite creation and
  redemption, member kick, role creation and every other modelled route, by any users
  in any order) reaches from a store without guilds, the member list of every role of
  every guild is within the member list of the guild. In particular a kick that
  succeeds (200), however the id of the kicked user is spelled in the path, leaves the
  guild with the kicked user neither in its member list nor in the member list of any
  of its roles.
\<close>

theorem roles_within_members:
  "(guilds s0 = [] \<longrightarrow>
      (\<forall>g\<in>set (guilds (run reqs s0)). \<forall>r\<in>set (guild.roles g).
          set (role.members r) \<subseteq> set (guild.members g))) \<and>
   (status (removeMember q gid k u s) = 200 \<longrightarrow>
      (\<exists>g. findGuild (db (removeMember q gid k u s)) gid = Some g \<and>
           u \<notin> set (guild.members g) \<and>
           (\<forall>r\<in>set (guild.roles g). u \<notin> set (role.members r))))"
proof (intro conjI impI)
  assume "guilds s0 = []"
  then have "guildInv s0" by (simp add: guildInv_def)
  then have "guildInv (run reqs s0)" by (rule guildInv_run)
  then show "\<forall>g\<in>set (guilds (run reqs s0)). \<forall>r\<in>set (guild.roles g).
          set (role.members r) \<subseteq> set (guild.members g)"
    by (simp add: guildInv_def rolesWithinMembers_def list_all_iff)
next
  assume "status (removeMember q gid k u s) = 200"
  from removeMember_removes [OF this]
  show "\<exists>g. findGuild (db (removeMember q gid k u s)) gid = Some g \<and>
           u \<notin> set (guild.members g) \<and>
           (\<forall>r\<in>set (guild.roles g). u \<notin> set (role.members r))"
    by (simp add: list_all_iff)
qed

theorem roles_within_members_witness:
  "guilds emptyStore = [] \<and>
   map (\<lambda>g. (guild.members g, map role.members (guild.roles g)))
     (guilds (run [CreateGuild 1 ''my guild'', CreateInvite 1000 ''abc123'' 1 10,
                   JoinGuild 2000 2 ''abc123'',
                   CreateRole 1 10 ''mods'' None (Some [''KICK_MEMBERS''])] emptyStore))
     = [([1, 2], [ [1, 2], [1], [] ])] \<and>
   list_all (\<lambda>g. list_all (\<lambda>r. set (role.members r) \<subseteq> set (guild.members g)) (guild.roles g))
     (guilds (run [CreateGuild 1 ''my guild'', CreateInvite 1000 ''abc123'' 1 10,
                   JoinGuild 2000 2 ''abc123'',
                   CreateRole 1 10 ''mods'' None (Some [''KICK_MEMBERS''])] emptyStore)) \<and>
   status (removeMember 1 10 True 2 joinedStore) = 200 \<and>
   (\<exists>g. findGuild (db (removeMember 1 10 True 2 joinedStore)) 10 = Some g \<and>
        2 \<notin> set (guild.members g) \<and>
        list_all (\<lambda>r. 2 \<notin> set (role.members r)) (guild.roles g))"
proof -
  have h1: "guilds emptyStore = []" by code_simp
  have h2: "status (removeMember 1 10 True 2 joinedStore) = 200" by code_simp
  have h3: "map (\<lambda>g. (guild.members g, map role.members (guild.roles g)))
     (guilds (run [CreateGuild 1 ''my guild'', CreateInvite 1000 ''abc123'' 1 10,
                   JoinGuild 2000 2 ''abc123'',
                   CreateRole 1 10 ''mods'' None (Some [''KICK_MEMBERS''])] emptyStore))
     = [([1, 2], [ [1, 2], [1], [] ])]" by code_simp
  show ?thesis
    using roles_within_members [of emptyStore
        "[CreateGuild 1 ''my guild'', CreateInvite 1000 ''abc123'' 1 10,
          JoinGuild 2000 2 ''abc123'',
          CreateRole 1 10 ''mods'' None (Some [''KICK_MEMBERS''])]" 1 10 True 2 joinedStore] h1 h2 h3
    by (simp add: list_all_iff)
qed

section \<open>The check of the send-message route\<close>



























section \<open>Conversations\<close>

lemma map_replaceFirst_same:
  "find P xs = Some c \<Longrightarrow> f y = f c \<Longrightarrow> map f (replaceFirst P y xs) = map f xs"
  by (induction xs) (auto split: if_splits)

lemma findExisting_None:
  "findExisting s u r = None \<Longrightarrow> c \<in> set (conversations s) \<Longrightarrow>
   set (conversation.participants c) \<noteq> {u, r}"
  by (auto simp add: findExisting_def find_None_iff)

lemma conversations_createConversation_new:
  "r \<in> set (users s) \<Longrightarrow> findExisting s u r = None \<Longrightarrow>
   conversations (db (createConversation u r s)) =
     conversations s @ [\<lparr>conversation.oid = nextId s, conversation.participants = [u, r],
                         conversation.creator = u, conversation.lastMessage = None\<rparr>]"
  by (simp add: createConversation_def Let_def)

lemma conversations_createConversation_same:
  "\<not> (r \<in> set (users s) \<and> findExisting s u r = None) \<Longrightarrow>
   conversations (db (createConversation u r s)) = conversations s"
  by (auto simp add: createConversation_def reply_def Let_def split: option.splits)

lemma convInv_createConversation:
  assumes "convInv s" shows "convInv (db (createConversation u r s))"
proof (cases "r \<in> set (users s) \<and> findExisting s u r = None")
  case True
  then have "\<forall>c\<in>set (conversations s). set (conversation.participants c) \<noteq> {u, r}"
    using findExisting_None by blast
  then have "{u, r} \<notin> (\<lambda>c. set (conversation.participants c)) ` set (conversations s)"
    by auto
  with assms True show ?thesis
    by (simp add: convInv_def conversations_createConversation_new insert_commute)
next
  case False
  from conversations_createConversation_same [OF False] assms show ?thesis
    by (simp add: convInv_def)
qed

lemma conversations_sendMessage:
  "map conversation.participants (conversations (db (sendMessage u c x s))) =
   map conversation.participants (conversations s)"
proof (cases "findConversation s c")
  case None
  then show ?thesis by (simp add: sendMessage_def reply_def Let_def)
next
  case (Some v)
  then have f: "find (\<lambda>x. conversation.oid x = c) (conversations s) = Some v"
    by (simp add: findConversation_def)
  from find_Some_holds [OF f] have oid: "conversation.oid v = c" .
  have "map conversation.participants
          (replaceFirst (\<lambda>x. conversation.oid x = c) (v\<lparr>conversation.lastMessage := Some (nextId s)\<rparr>)
             (conversations s)) = map conversation.participants (conversations s)"
    by (rule map_replaceFirst_same [OF f]) simp
  with Some oid show ?thesis
    by (simp add: sendMessage_def reply_def Let_def saveConversation_def)
qed

lemma convInv_participants:
  "map conversation.participants (conversations s') = map conversation.participants (conversations s)
   \<Longrightarrow> convInv s \<Longrightarrow> convInv s'"
proof -
  assume a: "map conversation.participants (conversations s') = map conversation.participants (conversations s)"
  assume b: "convInv s"
  have m: "\<And>xs. map (\<lambda>c. set (conversation.participants c)) xs = map set (map conversation.participants xs)"
    by simp
  have l: "\<And>xs. list_all (\<lambda>c. length (conversation.participants c) = 2) xs
          = list_all (\<lambda>p. length p = 2) (map conversation.participants xs)"
    by (simp add: list_all_iff)
  show ?thesis using b unfolding convInv_def m l a by simp
qed

lemma conversations_other:
  "conversations (db (createGuild a n s)) = conversations s"
  "conversations (db (deleteGuild a g s)) = conversations s"
  "conversations (db (removeMember q g k a s)) = conversations s"
  "conversations (db (createRole q g n co ps s)) = conversations s"
  "conversations (db (createInvite t cd a g s)) = conversations s"
  "conversations (db (joinGuild t a cd s)) = conversations s"
  "conversations (db (deleteChannel a ch s)) = conversations s"
  "conversations (db (createChannelMessage a ch x s)) = conversations s"
  "conversations (db (deleteMessage a m s)) = conversations s"
  by (simp_all add: createGuild_def deleteGuild_def removeMember_def createRole_def
      createInvite_def joinGuild_def deleteChannel_def createChannelMessage_def deleteMessage_def
      reply_def serverError_def Let_def saveGuild_def saveInvite_def
      split: option.splits bool.splits)

lemma convInv_handle: "convInv s \<Longrightarrow> convInv (db (handle r s))"
proof (cases r)
  case (CreateConversation u v)
  assume "convInv s"
  then show ?thesis using CreateConversation by (simp add: convInv_createConversation)
next
  case (SendMessage u c x)
  assume "convInv s"
  then show ?thesis using SendMessage
    by (simp add: convInv_participants [OF conversations_sendMessage])
qed (simp_all add: convInv_def conversations_other)

lemma convInv_run: "convInv s \<Longrightarrow> convInv (run reqs s)"
  by (induction reqs arbitrary: s) (simp_all add: convInv_handle)

text \<open>
  C9 (as amended). Every conversation that \<^verbatim>\<open>POST /conversations\<close> creates (201) has
  a participant list of exactly two entries, the creator and the recipient; the two
  are distinct unless the recipient is the creator, which the handler accepts. In
  every store that a run of the server reaches from a store without conversations, no
  two conversations have the same set of participants, and every participant list has
  two entries. A create for a recipient who is registered, when a conversation with
  both users exists, returns the first such conversation (200) and leaves the store
  as it is.
\<close>

theorem conversation_pairs:
  "(conversations s0 = [] \<longrightarrow>
      distinct (map (\<lambda>c. set (conversation.participants c)) (conversations (run reqs s0))) \<and>
      list_all (\<lambda>c. length (conversation.participants c) = 2) (conversations (run reqs s0))) \<and>
   (status (createConversation u r s) = 201 \<longrightarrow>
      (\<exists>c. conversations (db (createConversation u r s)) = conversations s @ [c] \<and>
           body (createConversation u r s) = ConversationDoc c \<and>
           conversation.participants c = [u, r] \<and> conversation.creator c = u)) \<and>
   (r \<in> set (users s) \<and> findExisting s u r = Some e \<longrightarrow>
      createConversation u r s = reply 200 (ConversationDoc e) s \<and>
      u \<in> set (conversation.participants e) \<and> r \<in> set (conversation.participants e))"
proof (intro conjI impI)
  assume "conversations s0 = []"
  then have "convInv s0" by (simp add: convInv_def)
  then have "convInv (run reqs s0)" by (rule convInv_run)
  then show "distinct (map (\<lambda>c. set (conversation.participants c)) (conversations (run reqs s0)))"
    and "list_all (\<lambda>c. length (conversation.participants c) = 2) (conversations (run reqs s0))"
    by (simp_all add: convInv_def)
next
  assume "status (createConversation u r s) = 201"
  then show "\<exists>c. conversations (db (createConversation u r s)) = conversations s @ [c] \<and>
           body (createConversation u r s) = ConversationDoc c \<and>
           conversation.participants c = [u, r] \<and> conversation.creator c = u"
    by (auto simp add: createConversation_def reply_def Let_def split: option.splits if_splits)
next
  assume a: "r \<in> set (users s) \<and> findExisting s u r = Some e"
  then show "createConversation u r s = reply 200 (ConversationDoc e) s"
    by (simp add: createConversation_def)
  from a have "find (\<lambda>c. u \<in> set (conversation.participants c)
              \<and> r \<in> set (conversation.participants c)) (conversations s) = Some e"
    by (simp add: findExisting_def)
  from find_Some_holds [OF this]
  show "u \<in> set (conversation.participants e)" and "r \<in> set (conversation.participants e)"
    by simp_all
qed

theorem conversation_pairs_witness:
  "conversations emptyStore = [] \<and>
   map conversation.participants
     (conversations (run [CreateConversation 1 2, CreateConversation 2 1, CreateConversation 1 3]
        emptyStore)) = [ [1, 2], [1, 3] ] \<and>
   distinct (map (\<lambda>c. set (conversation.participants c))
     (conversations (run [CreateConversation 1 2, CreateConversation 2 1, CreateConversation 1 3]
        emptyStore))) \<and>
   status (createConversation 2 3 emptyStore) = 201 \<and>
   (\<exists>c. conversations (db (createConversation 2 3 emptyStore)) = conversations emptyStore @ [c] \<and>
        conversation.participants c = [2, 3]) \<and>
   findExisting dmStore 3 2 = Some directConversation \<and>
   createConversation 3 2 dmStore = reply 200 (ConversationDoc directConversation) dmStore"
proof -
  have h1: "conversations emptyStore = []" by code_simp
  have h2: "status (createConversation 2 3 emptyStore) = 201" by code_simp
  have h3: "2 \<in> set (users dmStore) \<and> findExisting dmStore 3 2 = Some directConversation"
    by code_simp
  have h4: "map conversation.participants
     (conversations (run [CreateConversation 1 2, CreateConversation 2 1, CreateConversation 1 3]
        emptyStore)) = [ [1, 2], [1, 3] ]" by code_simp
  show ?thesis
    using conversation_pairs [of emptyStore
        "[CreateConversation 1 2, CreateConversation 2 1, CreateConversation 1 3]" 2 3 emptyStore]
      conversation_pairs [of emptyStore "[]" 3 2 dmStore directConversation] h1 h2 h3 h4
    by blast
qed

text \<open>
  The claim as stated fails when user 1 opens a conversation with user 1: the
  conversation is created, and its two participants are not distinct.
\<close>

theorem createConversation_self_counterexample:
  "1 \<in> set (users emptyStore) \<and>
   status (createConversation 1 1 emptyStore) = 201 \<and>
   body (createConversation 1 1 emptyStore) = ConversationDoc selfConversation \<and>
   conversations (db (createConversation 1 1 emptyStore)) = [selfConversation] \<and>
   conversation.participants selfConversation = [1, 1] \<and>
   \<not> distinct (conversation.participants selfConversation)"
  by code_simp

end
